theory Spec2Isabelle
  imports Main
begin

section \<open>Data model of BookmarkClient\<close>

text \<open>
  The client component keeps the list of bookmarks in React state and changes it in four
  places: the two push-feed callbacks, the add handler and the delete handler. Each
  \<^verbatim>\<open>setBookmarks\<close> call is modelled by the function it passes to React, each handler by
  one function per stretch of code between two \<^verbatim>\<open>await\<close>s, so that a push event can be
  placed between a request and its response.

  Strings are HOL strings: code units below 256. The record fields carry a prefix,
  since \<^verbatim>\<open>id\<close>, \<^verbatim>\<open>title\<close> and \<^verbatim>\<open>url\<close> name both row columns and other things.
\<close>

record Bookmark =
  b_id :: string
  b_user_id :: string
  b_title :: string
  b_url :: string
  b_created_at :: string

record User =
  u_id :: string
  u_email :: string
  u_name :: string

text \<open>The \<^verbatim>\<open>useState\<close> cells of the component.\<close>

record State =
  bookmarks :: "Bookmark list"
  title :: string
  url :: string
  submitting :: bool
  error :: "string option"
  deletingId :: "string option"

text \<open>\<^verbatim>\<open>useState(initialBookmarks)\<close>, \<^verbatim>\<open>useState("")\<close>, \<^verbatim>\<open>useState(false)\<close>, \<^verbatim>\<open>useState(null)\<close>.\<close>

definition BookmarkClient :: "Bookmark list \<Rightarrow> State" where
  "BookmarkClient initialBookmarks =
     \<lparr>bookmarks = initialBookmarks, title = [], url = [], submitting = False,
      error = None, deletingId = None\<rparr>"

text \<open>The dashboard page passes \<^verbatim>\<open>bookmarks ?? []\<close> of its ordered query.\<close>

definition DashboardPage :: "Bookmark list option \<Rightarrow> State" where
  "DashboardPage fetched =
     BookmarkClient (case fetched of None \<Rightarrow> [] | Some bs \<Rightarrow> bs)"

section \<open>Requests to the remote store\<close>

text \<open>
  The three query chains the component builds. What the store answers is an input of the
  model: \<^verbatim>\<open>{data, error}\<close> with either part \<^verbatim>\<open>null\<close>.
\<close>

datatype Request =
    Insert_row string string string
      \<comment> \<open>\<^verbatim>\<open>from("bookmarks").insert({title, url, user_id}).select().single()\<close>\<close>
  | Delete_eq_id string
      \<comment> \<open>\<^verbatim>\<open>from("bookmarks").delete().eq("id", id)\<close>\<close>
  | Select_order string bool
      \<comment> \<open>\<^verbatim>\<open>from("bookmarks").select("*").order(column, {ascending})\<close>\<close>

record InsertResponse =
  ins_data :: "Bookmark option"
  ins_error :: "string option"

section \<open>The push subscription\<close>

datatype EventKind = INSERT | DELETE

text \<open>
  A change event: its kind and the row it carries (\<^verbatim>\<open>payload.new\<close> of an insert,
  \<^verbatim>\<open>payload.old\<close> of a delete, of which the component reads \<^verbatim>\<open>id\<close> alone).
\<close>

record Change =
  kind :: EventKind
  row :: Bookmark

text \<open>The callback of the INSERT binding: the updater given to \<^verbatim>\<open>setBookmarks\<close>.\<close>

definition on_INSERT :: "Bookmark \<Rightarrow> Bookmark list \<Rightarrow> Bookmark list" where
  "on_INSERT newBookmark prev =
     (if list_ex (\<lambda>b. b_id b = b_id newBookmark) prev then prev
      else newBookmark # prev)"

text \<open>The callback of the DELETE binding.\<close>

definition on_DELETE :: "Bookmark \<Rightarrow> Bookmark list \<Rightarrow> Bookmark list" where
  "on_DELETE old prev = filter (\<lambda>b. b_id b \<noteq> b_id old) prev"

text \<open>The two callbacks, chosen by the event kind of their binding.\<close>

definition callback :: "Change \<Rightarrow> State \<Rightarrow> State" where
  "callback c st =
     (case kind c of
        INSERT \<Rightarrow> st\<lparr>bookmarks := on_INSERT (row c) (bookmarks st)\<rparr>
      | DELETE \<Rightarrow> st\<lparr>bookmarks := on_DELETE (row c) (bookmarks st)\<rparr>)"

text \<open>
  The two bindings the component registers on its channel with \<^verbatim>\<open>.on("postgres_changes", ...)\<close>:
  event, schema, table, and the filter text \<^verbatim>\<open>`user_id=eq.${user.id}`\<close>.
\<close>

record Binding =
  bind_event :: EventKind
  bind_schema :: string
  bind_table :: string
  bind_filter :: string

definition bindings :: "User \<Rightarrow> Binding list" where
  "bindings user =
     [\<lparr>bind_event = INSERT, bind_schema = ''public'', bind_table = ''bookmarks'',
       bind_filter = ''user_id=eq.'' @ u_id user\<rparr>,
      \<lparr>bind_event = DELETE, bind_schema = ''public'', bind_table = ''bookmarks'',
       bind_filter = ''user_id=eq.'' @ u_id user\<rparr>]"

text \<open>
  The channel after \<^verbatim>\<open>.subscribe()\<close>: the callback of a binding runs on the events of its
  kind that the server sends for it. The component itself evaluates no filter. Which
  events the server sends for a binding is decided outside the repository: it is the
  parameter \<open>delivers\<close>.
\<close>

definition subscription ::
    "(Binding \<Rightarrow> Change \<Rightarrow> bool) \<Rightarrow> User \<Rightarrow> Change \<Rightarrow> State \<Rightarrow> State" where
  "subscription delivers user c st =
     (if list_ex (\<lambda>b. bind_event b = kind c \<and> delivers b c) (bindings user)
      then callback c st else st)"

section \<open>handleAddBookmark\<close>

text \<open>
  \<^verbatim>\<open>String.prototype.trim\<close> strips white space and line terminators from both ends; among
  the code units below 256 these are TAB, LF, VT, FF, CR, SPACE and NBSP.
\<close>

definition is_white_space :: "char \<Rightarrow> bool" where
  "is_white_space c =
     (c = CHR 0x09 \<or> c = CHR 0x0A \<or> c = CHR 0x0B \<or> c = CHR 0x0C \<or> c = CHR 0x0D
      \<or> c = CHR 0x20 \<or> c = CHR 0xA0)"

definition trim :: "string \<Rightarrow> string" where
  "trim s = rev (dropWhile is_white_space (rev (dropWhile is_white_space s)))"

text \<open>
  From the start of the handler to the \<^verbatim>\<open>await\<close> of the insert. The URL constructor of the
  platform is the parameter \<open>new_URL\<close>: \<open>None\<close> when it throws. The result is the state
  and the request the handler is waiting for, if any.
\<close>

definition handleAddBookmark_submit ::
    "(string \<Rightarrow> 'u option) \<Rightarrow> User \<Rightarrow> State \<Rightarrow> State \<times> Request option" where
  "handleAddBookmark_submit new_URL user st =
     (let st1 = st\<lparr>submitting := True, error := None\<rparr>;
          trimmedUrl = trim (url st);
          trimmedTitle = trim (title st)
      in if trimmedTitle = [] \<or> trimmedUrl = [] then
           (st1\<lparr>error := Some ''Both title and URL are required.'', submitting := False\<rparr>,
            None)
         else
           (case new_URL trimmedUrl of
              None \<Rightarrow>
                (st1\<lparr>error := Some ''Please enter a valid URL (e.g. https://example.com).'',
                     submitting := False\<rparr>,
                 None)
            | Some _ \<Rightarrow> (st1, Some (Insert_row trimmedTitle trimmedUrl (u_id user)))))"

text \<open>From the answer of the insert to the end of the handler.\<close>

definition handleAddBookmark_answer :: "InsertResponse \<Rightarrow> State \<Rightarrow> State" where
  "handleAddBookmark_answer r st =
     (let st1 =
        (case ins_error r of
           Some message \<Rightarrow> st\<lparr>error := Some message\<rparr>
         | None \<Rightarrow>
             (case ins_data r of
                Some d \<Rightarrow> st\<lparr>bookmarks := d # bookmarks st, title := [], url := []\<rparr>
              | None \<Rightarrow> st))
      in st1\<lparr>submitting := False\<rparr>)"

text \<open>
  The whole handler when nothing else runs while it waits: \<open>remote\<close> answers the
  insert. The second component lists the requests sent.
\<close>

definition handleAddBookmark ::
    "(string \<Rightarrow> 'u option) \<Rightarrow> (Request \<Rightarrow> InsertResponse) \<Rightarrow> User \<Rightarrow> State
       \<Rightarrow> State \<times> Request list" where
  "handleAddBookmark new_URL remote user st =
     (case handleAddBookmark_submit new_URL user st of
        (st1, None) \<Rightarrow> (st1, [])
      | (st1, Some q) \<Rightarrow> (handleAddBookmark_answer (remote q) st1, [q]))"

section \<open>handleDelete\<close>

text \<open>Up to the \<^verbatim>\<open>await\<close> of the delete: the optimistic removal, then the request.\<close>

definition handleDelete_click :: "string \<Rightarrow> State \<Rightarrow> State \<times> Request" where
  "handleDelete_click i st =
     (st\<lparr>deletingId := Some i, bookmarks := filter (\<lambda>b. b_id b \<noteq> i) (bookmarks st)\<rparr>,
      Delete_eq_id i)"

text \<open>From the answer of the delete: done, or the error is shown and the list is fetched again.\<close>

definition handleDelete_answer :: "string option \<Rightarrow> State \<Rightarrow> State \<times> Request option" where
  "handleDelete_answer deleteError st =
     (case deleteError of
        Some message \<Rightarrow> (st\<lparr>error := Some message\<rparr>, Some (Select_order ''created_at'' False))
      | None \<Rightarrow> (st\<lparr>deletingId := None\<rparr>, None))"

text \<open>From the answer of the second fetch to the end; an empty array is truthy.\<close>

definition handleDelete_refetched :: "Bookmark list option \<Rightarrow> State \<Rightarrow> State" where
  "handleDelete_refetched fetched st =
     (let st1 = (case fetched of Some d \<Rightarrow> st\<lparr>bookmarks := d\<rparr> | None \<Rightarrow> st)
      in st1\<lparr>deletingId := None\<rparr>)"

text \<open>The whole handler when nothing else runs while it waits.\<close>

definition handleDelete ::
    "(Request \<Rightarrow> string option) \<Rightarrow> (Request \<Rightarrow> Bookmark list option) \<Rightarrow> string \<Rightarrow> State
       \<Rightarrow> State \<times> Request list" where
  "handleDelete remote_delete remote_select i st =
     (case handleDelete_click i st of
        (st1, q1) \<Rightarrow>
          (case handleDelete_answer (remote_delete q1) st1 of
             (st2, None) \<Rightarrow> (st2, [q1])
           | (st2, Some q2) \<Rightarrow> (handleDelete_refetched (remote_select q2) st2, [q1, q2])))"

section \<open>Runs of the component\<close>

text \<open>
  What can happen to a mounted component, one entry per stretch of code that runs without
  interruption: a submit of the form, the answer of the insert, a click on delete, the
  answer of the delete, the answer of the second fetch, and an event handed to a feed
  callback.
\<close>

datatype Event =
    Submit
  | Insert_answered InsertResponse
  | Delete_clicked string
  | Delete_answered "string option"
  | Select_answered "Bookmark list option"
  | Feed Change

fun step :: "(string \<Rightarrow> 'u option) \<Rightarrow> User \<Rightarrow> State \<Rightarrow> Event \<Rightarrow> State" where
  "step new_URL user st Submit = fst (handleAddBookmark_submit new_URL user st)"
| "step new_URL user st (Insert_answered r) = handleAddBookmark_answer r st"
| "step new_URL user st (Delete_clicked i) = fst (handleDelete_click i st)"
| "step new_URL user st (Delete_answered e) = fst (handleDelete_answer e st)"
| "step new_URL user st (Select_answered d) = handleDelete_refetched d st"
| "step new_URL user st (Feed c) = callback c st"

definition run :: "(string \<Rightarrow> 'u option) \<Rightarrow> User \<Rightarrow> State \<Rightarrow> Event list \<Rightarrow> State" where
  "run new_URL user st evs = foldl (step new_URL user) st evs"

text \<open>No two entries of the list share an id.\<close>

definition unique_ids :: "Bookmark list \<Rightarrow> bool" where
  "unique_ids bs = distinct (map b_id bs)"

text \<open>
  Newest first. The store orders rows by the instant a \<^verbatim>\<open>created_at\<close> text denotes; the
  reading of the text is the parameter \<open>ts\<close>.
\<close>

definition newest_first :: "(string \<Rightarrow> int) \<Rightarrow> Bookmark list \<Rightarrow> bool" where
  "newest_first ts bs =
     sorted_wrt (\<lambda>a b. ts (b_created_at b) \<le> ts (b_created_at a)) bs"

text \<open>The row \<open>d\<close> is at least as new as every entry of the list.\<close>

definition newest_of :: "(string \<Rightarrow> int) \<Rightarrow> Bookmark \<Rightarrow> Bookmark list \<Rightarrow> bool" where
  "newest_of ts d bs = list_all (\<lambda>b. ts (b_created_at b) \<le> ts (b_created_at d)) bs"

text \<open>
  An entry of a run of the two handlers alone: no feed event, an insert answers with a
  row at least as new as the entries present, and a second fetch answers with a list that
  is newest first (it asks for \<^verbatim>\<open>created_at\<close> descending).
\<close>

fun handler_event :: "(string \<Rightarrow> int) \<Rightarrow> State \<Rightarrow> Event \<Rightarrow> bool" where
  "handler_event ts st (Insert_answered r) =
     (case ins_error r of
        Some message \<Rightarrow> True
      | None \<Rightarrow> (case ins_data r of None \<Rightarrow> True | Some d \<Rightarrow> newest_of ts d (bookmarks st)))"
| "handler_event ts st (Select_answered fetched) =
     (case fetched of None \<Rightarrow> True | Some d \<Rightarrow> newest_first ts d)"
| "handler_event ts st (Feed c) = False"
| "handler_event ts st Submit = True"
| "handler_event ts st (Delete_clicked i) = True"
| "handler_event ts st (Delete_answered e) = True"

fun handler_run ::
    "(string \<Rightarrow> int) \<Rightarrow> (string \<Rightarrow> 'u option) \<Rightarrow> User \<Rightarrow> State \<Rightarrow> Event list \<Rightarrow> bool" where
  "handler_run ts new_URL user st [] = True"
| "handler_run ts new_URL user st (ev # evs) =
     (handler_event ts st ev \<and> handler_run ts new_URL user (step new_URL user st ev) evs)"

section \<open>Helper lemmas\<close>

lemma filter_absent_id:
  "i \<notin> set (map b_id bs) \<Longrightarrow> filter (\<lambda>b. b_id b \<noteq> i) bs = bs"
  by (induction bs) auto

lemma on_INSERT_twice: "on_INSERT x (on_INSERT x prev) = on_INSERT x prev"
  by (simp add: on_INSERT_def)

lemma on_DELETE_twice: "on_DELETE x (on_DELETE x prev) = on_DELETE x prev"
  by (simp add: on_DELETE_def)

lemma on_DELETE_commute: "on_DELETE x (on_DELETE y prev) = on_DELETE y (on_DELETE x prev)"
  by (auto simp: on_DELETE_def intro: filter_cong)

lemma on_INSERT_unique_ids: "unique_ids prev \<Longrightarrow> unique_ids (on_INSERT x prev)"
  by (auto simp: on_INSERT_def unique_ids_def list_ex_iff)

lemma on_DELETE_unique_ids: "unique_ids prev \<Longrightarrow> unique_ids (on_DELETE x prev)"
  by (simp add: on_DELETE_def unique_ids_def distinct_map_filter)

lemma step_newest_first:
  assumes "newest_first ts (bookmarks st)" and "handler_event ts st ev"
  shows "newest_first ts (bookmarks (step new_URL user st ev))"
proof (cases ev)
  case Submit
  with assms show ?thesis
    by (simp add: handleAddBookmark_submit_def Let_def split: option.splits)
next
  case (Insert_answered r)
  with assms show ?thesis
    by (auto simp: handleAddBookmark_answer_def newest_first_def newest_of_def list_all_iff
          split: option.splits)
next
  case (Delete_clicked i)
  with assms show ?thesis
    by (simp add: handleDelete_click_def newest_first_def sorted_wrt_filter)
next
  case (Delete_answered e)
  with assms show ?thesis
    by (simp add: handleDelete_answer_def split: option.splits)
next
  case (Select_answered d)
  with assms show ?thesis
    by (simp add: handleDelete_refetched_def split: option.splits)
next
  case (Feed c)
  with assms show ?thesis by simp
qed

section \<open>Reconciliation of the two channels\<close>

text \<open>
  C1. The claim: the answer of the create and its echo on the feed converge to the same
  list in either order, both channels inserting only an absent id. The add handler
  prepends the returned row without looking for its id. When the answer comes first the
  INSERT callback finds the id and drops the echo; when the echo comes first the row is
  in the list twice. The two orders are evaluated on one submit of "Docs",
  "https://example.com/docs" into an empty list.
\<close>

theorem create_answer_after_echo_duplicates:
  "bookmarks (run (\<lambda>s. if s = ''https://example.com/docs'' then Some () else None)
       \<lparr>u_id = ''u1'', u_email = ''a@b.c'', u_name = ''A''\<rparr>
       ((BookmarkClient []) \<lparr>title := ''Docs'', url := ''https://example.com/docs''\<rparr>)
       [Submit,
        Insert_answered \<lparr>ins_data = Some \<lparr>b_id = ''a1'', b_user_id = ''u1'', b_title = ''Docs'',
           b_url = ''https://example.com/docs'', b_created_at = ''T1''\<rparr>, ins_error = None\<rparr>,
        Feed \<lparr>kind = INSERT, row = \<lparr>b_id = ''a1'', b_user_id = ''u1'', b_title = ''Docs'',
           b_url = ''https://example.com/docs'', b_created_at = ''T1''\<rparr>\<rparr>])
   = [\<lparr>b_id = ''a1'', b_user_id = ''u1'', b_title = ''Docs'',
           b_url = ''https://example.com/docs'', b_created_at = ''T1''\<rparr>]
  \<and>
   bookmarks (run (\<lambda>s. if s = ''https://example.com/docs'' then Some () else None)
       \<lparr>u_id = ''u1'', u_email = ''a@b.c'', u_name = ''A''\<rparr>
       ((BookmarkClient []) \<lparr>title := ''Docs'', url := ''https://example.com/docs''\<rparr>)
       [Submit,
        Feed \<lparr>kind = INSERT, row = \<lparr>b_id = ''a1'', b_user_id = ''u1'', b_title = ''Docs'',
           b_url = ''https://example.com/docs'', b_created_at = ''T1''\<rparr>\<rparr>,
        Insert_answered \<lparr>ins_data = Some \<lparr>b_id = ''a1'', b_user_id = ''u1'', b_title = ''Docs'',
           b_url = ''https://example.com/docs'', b_created_at = ''T1''\<rparr>, ins_error = None\<rparr>])
   = [\<lparr>b_id = ''a1'', b_user_id = ''u1'', b_title = ''Docs'',
           b_url = ''https://example.com/docs'', b_created_at = ''T1''\<rparr>,
      \<lparr>b_id = ''a1'', b_user_id = ''u1'', b_title = ''Docs'',
           b_url = ''https://example.com/docs'', b_created_at = ''T1''\<rparr>]"
  by (simp add: run_def BookmarkClient_def handleAddBookmark_submit_def
        handleAddBookmark_answer_def callback_def on_INSERT_def trim_def
        is_white_space_def)

text \<open>
  C2. The claim: no reachable list holds one id twice. From a list of one entry, a
  submit whose echo is delivered before its answer reaches a list that holds the new id
  twice.
\<close>

theorem duplicate_id_reachable:
  "unique_ids (bookmarks (BookmarkClient [\<lparr>b_id = ''a0'', b_user_id = ''u1'', b_title = ''Old'',
           b_url = ''https://example.com'', b_created_at = ''T0''\<rparr>]))
   \<and> \<not> unique_ids (bookmarks
       (run (\<lambda>s. if s = ''https://example.com/docs'' then Some () else None)
         \<lparr>u_id = ''u1'', u_email = ''a@b.c'', u_name = ''A''\<rparr>
         ((BookmarkClient [\<lparr>b_id = ''a0'', b_user_id = ''u1'', b_title = ''Old'',
             b_url = ''https://example.com'', b_created_at = ''T0''\<rparr>])
            \<lparr>title := ''Docs'', url := ''https://example.com/docs''\<rparr>)
         [Submit,
          Feed \<lparr>kind = INSERT, row = \<lparr>b_id = ''a1'', b_user_id = ''u1'', b_title = ''Docs'',
             b_url = ''https://example.com/docs'', b_created_at = ''T1''\<rparr>\<rparr>,
          Insert_answered \<lparr>ins_data = Some \<lparr>b_id = ''a1'', b_user_id = ''u1'',
             b_title = ''Docs'', b_url = ''https://example.com/docs'', b_created_at = ''T1''\<rparr>,
             ins_error = None\<rparr>]))"
  by (simp add: unique_ids_def run_def BookmarkClient_def handleAddBookmark_submit_def
        handleAddBookmark_answer_def callback_def on_INSERT_def trim_def
        is_white_space_def)

section \<open>Ownership of feed events\<close>

text \<open>
  C3, as stated: the callbacks leave the list alone when the row of the event belongs to
  another user. Neither callback reads \<^verbatim>\<open>user_id\<close>: handed the insert of a row of user
  "u2" in the session of user "u1", the INSERT callback prepends it.
\<close>

theorem callback_applies_foreign_insert:
  "b_user_id (row \<lparr>kind = INSERT, row = \<lparr>b_id = ''z9'', b_user_id = ''u2'', b_title = ''Other'',
           b_url = ''https://example.org'', b_created_at = ''T2''\<rparr>\<rparr>)
     \<noteq> u_id \<lparr>u_id = ''u1'', u_email = ''a@b.c'', u_name = ''A''\<rparr>
   \<and> bookmarks (callback \<lparr>kind = INSERT, row = \<lparr>b_id = ''z9'', b_user_id = ''u2'',
           b_title = ''Other'', b_url = ''https://example.org'', b_created_at = ''T2''\<rparr>\<rparr>
         (BookmarkClient []))
     \<noteq> bookmarks (BookmarkClient [])"
  by (simp add: callback_def on_INSERT_def BookmarkClient_def)

text \<open>
  C3, amended: for every event handed to the callbacks, whatever the \<^verbatim>\<open>user_id\<close> of its
  row, the state is left as it is exactly when the id makes the event a no-op: an insert
  whose id some entry has, a delete whose id no entry has. Otherwise the list changes.
  Putting another \<^verbatim>\<open>user_id\<close> into the row does not change which of the two happens. The
  one trace of the owner in the subscription is the filter text
  \<^verbatim>\<open>user_id=eq.<id of the user>\<close> that both bindings carry to the server.
\<close>

theorem callback_keyed_by_id_alone:
  "(callback c st = st) =
     (if kind c = INSERT then list_ex (\<lambda>b. b_id b = b_id (row c)) (bookmarks st)
      else \<not> list_ex (\<lambda>b. b_id b = b_id (row c)) (bookmarks st))
   \<and> (callback (c\<lparr>row := (row c)\<lparr>b_user_id := w\<rparr>\<rparr>) st = st) = (callback c st = st)
   \<and> map bind_filter (bindings user)
       = [''user_id=eq.'' @ u_id user, ''user_id=eq.'' @ u_id user]"
proof -
  have upd: "(st\<lparr>bookmarks := bs\<rparr> = st) = (bs = bookmarks st)" for bs
    by (cases st) simp
  have key: "(callback d st = st) =
     (if kind d = INSERT then list_ex (\<lambda>b. b_id b = b_id (row d)) (bookmarks st)
      else \<not> list_ex (\<lambda>b. b_id b = b_id (row d)) (bookmarks st))" for d
  proof (cases "kind d")
    case INSERT
    then show ?thesis by (simp add: callback_def on_INSERT_def upd)
  next
    case DELETE
    then show ?thesis
      by (simp add: callback_def on_DELETE_def upd filter_id_conv list_ex_iff)
  qed
  have "(callback (c\<lparr>row := (row c)\<lparr>b_user_id := w\<rparr>\<rparr>) st = st) = (callback c st = st)"
    by (simp add: key)
  moreover have "map bind_filter (bindings user)
       = [''user_id=eq.'' @ u_id user, ''user_id=eq.'' @ u_id user]"
    by (simp add: bindings_def)
  ultimately show ?thesis using key [of c] by simp
qed

theorem callback_keyed_by_id_alone_witness:
  "callback \<lparr>kind = INSERT, row = \<lparr>b_id = ''z9'', b_user_id = ''u2'', b_title = ''Other'',
           b_url = ''https://example.org'', b_created_at = ''T2''\<rparr>\<rparr>
      (BookmarkClient [\<lparr>b_id = ''a0'', b_user_id = ''u1'', b_title = ''Old'',
           b_url = ''https://example.com'', b_created_at = ''T0''\<rparr>])
     \<noteq> BookmarkClient [\<lparr>b_id = ''a0'', b_user_id = ''u1'', b_title = ''Old'',
           b_url = ''https://example.com'', b_created_at = ''T0''\<rparr>]
   \<and> callback \<lparr>kind = DELETE, row = \<lparr>b_id = ''a0'', b_user_id = ''u2'', b_title = [],
           b_url = [], b_created_at = []\<rparr>\<rparr>
      (BookmarkClient [\<lparr>b_id = ''a0'', b_user_id = ''u1'', b_title = ''Old'',
           b_url = ''https://example.com'', b_created_at = ''T0''\<rparr>])
     \<noteq> BookmarkClient [\<lparr>b_id = ''a0'', b_user_id = ''u1'', b_title = ''Old'',
           b_url = ''https://example.com'', b_created_at = ''T0''\<rparr>]
   \<and> map bind_filter (bindings \<lparr>u_id = ''u1'', u_email = ''a@b.c'', u_name = ''A''\<rparr>)
       = [''user_id=eq.u1'', ''user_id=eq.u1'']"
  using
    callback_keyed_by_id_alone
      [where c = "\<lparr>kind = INSERT, row = \<lparr>b_id = ''z9'', b_user_id = ''u2'',
             b_title = ''Other'', b_url = ''https://example.org'', b_created_at = ''T2''\<rparr>\<rparr>"
         and st = "BookmarkClient [\<lparr>b_id = ''a0'', b_user_id = ''u1'', b_title = ''Old'',
             b_url = ''https://example.com'', b_created_at = ''T0''\<rparr>]"
         and user = "\<lparr>u_id = ''u1'', u_email = ''a@b.c'', u_name = ''A''\<rparr>"]
    callback_keyed_by_id_alone
      [where c = "\<lparr>kind = DELETE, row = \<lparr>b_id = ''a0'', b_user_id = ''u2'', b_title = [],
             b_url = [], b_created_at = []\<rparr>\<rparr>"
         and st = "BookmarkClient [\<lparr>b_id = ''a0'', b_user_id = ''u1'', b_title = ''Old'',
             b_url = ''https://example.com'', b_created_at = ''T0''\<rparr>]"
         and user = "\<lparr>u_id = ''u1'', u_email = ''a@b.c'', u_name = ''A''\<rparr>"]
  by (simp add: BookmarkClient_def)

section \<open>Create\<close>

text \<open>
  C4. When the trimmed title or the trimmed location is empty, or the URL constructor
  throws on the trimmed location, the add handler sends no request and ends in the state
  it started from with only the error message set (and \<^verbatim>\<open>submitting\<close> false): the list of
  bookmarks is as it was.
\<close>

theorem handleAddBookmark_rejects_invalid:
  assumes "trim (title st) = [] \<or> trim (url st) = [] \<or> new_URL (trim (url st)) = None"
  shows "handleAddBookmark new_URL remote user st =
           (st\<lparr>submitting := False,
               error := Some (if trim (title st) = [] \<or> trim (url st) = []
                              then ''Both title and URL are required.''
                              else ''Please enter a valid URL (e.g. https://example.com).'')\<rparr>,
            [])"
  using assms
  by (auto simp: handleAddBookmark_def handleAddBookmark_submit_def Let_def split: option.splits)

theorem handleAddBookmark_rejects_invalid_witness:
  "handleAddBookmark (\<lambda>s. if s = ''https://example.com'' then Some () else None)
      (\<lambda>q. \<lparr>ins_data = None, ins_error = None\<rparr>)
      \<lparr>u_id = ''u1'', u_email = ''a@b.c'', u_name = ''A''\<rparr>
      ((BookmarkClient []) \<lparr>title := ''Docs'', url := '' example ''\<rparr>)
    = ((BookmarkClient []) \<lparr>title := ''Docs'', url := '' example '',
           error := Some ''Please enter a valid URL (e.g. https://example.com).''\<rparr>, [])"
  using handleAddBookmark_rejects_invalid
    [of "(BookmarkClient []) \<lparr>title := ''Docs'', url := '' example ''\<rparr>"
        "\<lambda>s. if s = ''https://example.com'' then Some () else None"
        "\<lambda>q. \<lparr>ins_data = None, ins_error = None\<rparr>"
        "\<lparr>u_id = ''u1'', u_email = ''a@b.c'', u_name = ''A''\<rparr>"]
  by (simp add: trim_def is_white_space_def BookmarkClient_def)

text \<open>
  C5. For an input that passes validation, the handler sends the one insert request
  \<open>q\<close>. When the answer carries an error, the handler ends in the state it started from
  with only the message of that error set: the list is as it was. When the answer
  carries no error and a row, the row is put at the head of the list and the form is
  cleared.
\<close>

theorem handleAddBookmark_remote_failure:
  assumes "trim (title st) \<noteq> []" and "trim (url st) \<noteq> []"
      and "new_URL (trim (url st)) = Some u"
      and "q = Insert_row (trim (title st)) (trim (url st)) (u_id user)"
  shows "(ins_error (remote q) = Some message \<longrightarrow>
            handleAddBookmark new_URL remote user st
              = (st\<lparr>submitting := False, error := Some message\<rparr>, [q]))
       \<and> (ins_error (remote q) = None \<longrightarrow> ins_data (remote q) = Some d \<longrightarrow>
            handleAddBookmark new_URL remote user st
              = (st\<lparr>bookmarks := d # bookmarks st, title := [], url := [],
                     submitting := False, error := None\<rparr>, [q]))"
  using assms
  by (simp add: handleAddBookmark_def handleAddBookmark_submit_def handleAddBookmark_answer_def)

theorem handleAddBookmark_remote_failure_witness:
  "handleAddBookmark (\<lambda>s. if s = ''https://example.com/docs'' then Some () else None)
      (\<lambda>q. \<lparr>ins_data = None, ins_error = Some ''permission denied''\<rparr>)
      \<lparr>u_id = ''u1'', u_email = ''a@b.c'', u_name = ''A''\<rparr>
      ((BookmarkClient [\<lparr>b_id = ''a0'', b_user_id = ''u1'', b_title = ''Old'',
           b_url = ''https://example.com'', b_created_at = ''T0''\<rparr>])
         \<lparr>title := '' Docs'', url := ''https://example.com/docs ''\<rparr>)
    = ((BookmarkClient [\<lparr>b_id = ''a0'', b_user_id = ''u1'', b_title = ''Old'',
           b_url = ''https://example.com'', b_created_at = ''T0''\<rparr>])
         \<lparr>title := '' Docs'', url := ''https://example.com/docs '',
          error := Some ''permission denied''\<rparr>,
       [Insert_row ''Docs'' ''https://example.com/docs'' ''u1''])
   \<and>
   handleAddBookmark (\<lambda>s. if s = ''https://example.com/docs'' then Some () else None)
      (\<lambda>q. \<lparr>ins_data = Some \<lparr>b_id = ''a1'', b_user_id = ''u1'', b_title = ''Docs'',
           b_url = ''https://example.com/docs'', b_created_at = ''T1''\<rparr>, ins_error = None\<rparr>)
      \<lparr>u_id = ''u1'', u_email = ''a@b.c'', u_name = ''A''\<rparr>
      ((BookmarkClient [\<lparr>b_id = ''a0'', b_user_id = ''u1'', b_title = ''Old'',
           b_url = ''https://example.com'', b_created_at = ''T0''\<rparr>])
         \<lparr>title := '' Docs'', url := ''https://example.com/docs ''\<rparr>)
    = (BookmarkClient [\<lparr>b_id = ''a1'', b_user_id = ''u1'', b_title = ''Docs'',
           b_url = ''https://example.com/docs'', b_created_at = ''T1''\<rparr>,
         \<lparr>b_id = ''a0'', b_user_id = ''u1'', b_title = ''Old'',
           b_url = ''https://example.com'', b_created_at = ''T0''\<rparr>],
       [Insert_row ''Docs'' ''https://example.com/docs'' ''u1''])"
  using
    handleAddBookmark_remote_failure
      [of "(BookmarkClient [\<lparr>b_id = ''a0'', b_user_id = ''u1'', b_title = ''Old'',
             b_url = ''https://example.com'', b_created_at = ''T0''\<rparr>])
             \<lparr>title := '' Docs'', url := ''https://example.com/docs ''\<rparr>"
          "\<lambda>s. if s = ''https://example.com/docs'' then Some () else None" "()"
          "Insert_row ''Docs'' ''https://example.com/docs'' ''u1''"
          "\<lparr>u_id = ''u1'', u_email = ''a@b.c'', u_name = ''A''\<rparr>"
          "\<lambda>q. \<lparr>ins_data = None, ins_error = Some ''permission denied''\<rparr>"
          "''permission denied''"]
    handleAddBookmark_remote_failure
      [of "(BookmarkClient [\<lparr>b_id = ''a0'', b_user_id = ''u1'', b_title = ''Old'',
             b_url = ''https://example.com'', b_created_at = ''T0''\<rparr>])
             \<lparr>title := '' Docs'', url := ''https://example.com/docs ''\<rparr>"
          "\<lambda>s. if s = ''https://example.com/docs'' then Some () else None" "()"
          "Insert_row ''Docs'' ''https://example.com/docs'' ''u1''"
          "\<lparr>u_id = ''u1'', u_email = ''a@b.c'', u_name = ''A''\<rparr>"
          "\<lambda>q. \<lparr>ins_data = Some \<lparr>b_id = ''a1'', b_user_id = ''u1'', b_title = ''Docs'',
             b_url = ''https://example.com/docs'', b_created_at = ''T1''\<rparr>, ins_error = None\<rparr>"
          _
          "\<lparr>b_id = ''a1'', b_user_id = ''u1'', b_title = ''Docs'',
             b_url = ''https://example.com/docs'', b_created_at = ''T1''\<rparr>"]
  by (simp add: trim_def is_white_space_def BookmarkClient_def)

text \<open>
  C9. The handler sends its request exactly when the trimmed title and the trimmed
  location are not empty and the URL constructor accepts the trimmed location; nothing
  else about the location is looked at, its scheme included. The request carries the
  trimmed texts and the id of the user.
\<close>

theorem validation_is_URL_constructor:
  "(snd (handleAddBookmark_submit new_URL user st) \<noteq> None)
     = (trim (title st) \<noteq> [] \<and> trim (url st) \<noteq> [] \<and> new_URL (trim (url st)) \<noteq> None)
   \<and> (trim (title st) \<noteq> [] \<longrightarrow> trim (url st) \<noteq> [] \<longrightarrow> new_URL (trim (url st)) \<noteq> None \<longrightarrow>
        snd (handleAddBookmark new_URL remote user st)
          = [Insert_row (trim (title st)) (trim (url st)) (u_id user)])"
  by (auto simp: handleAddBookmark_def handleAddBookmark_submit_def Let_def split: option.splits)

theorem validation_is_URL_constructor_witness:
  "snd (handleAddBookmark
      (\<lambda>s. if s = ''javascript:alert(1)'' \<or> s = ''https://example.com'' then Some () else None)
      (\<lambda>q. \<lparr>ins_data = None, ins_error = None\<rparr>)
      \<lparr>u_id = ''u1'', u_email = ''a@b.c'', u_name = ''A''\<rparr>
      ((BookmarkClient []) \<lparr>title := ''Script'', url := '' javascript:alert(1)''\<rparr>))
    = [Insert_row ''Script'' ''javascript:alert(1)'' ''u1'']"
  using validation_is_URL_constructor
    [of "\<lambda>s. if s = ''javascript:alert(1)'' \<or> s = ''https://example.com'' then Some () else None"
        "\<lparr>u_id = ''u1'', u_email = ''a@b.c'', u_name = ''A''\<rparr>"
        "(BookmarkClient []) \<lparr>title := ''Script'', url := '' javascript:alert(1)''\<rparr>"
        "\<lambda>q. \<lparr>ins_data = None, ins_error = None\<rparr>"]
  by (simp add: trim_def is_white_space_def BookmarkClient_def)

section \<open>Delete\<close>

text \<open>
  C6. The delete handler removes the entry with the id before it sends the delete
  request. When the store answers without an error, the handler sends nothing more and
  the list stays as the removal left it. When the store answers with an error, the
  message is set and the handler asks for all rows ordered by \<^verbatim>\<open>created_at\<close> descending;
  the list that request returns replaces the list of bookmarks.
\<close>

theorem handleDelete_optimistic_then_resync:
  "handleDelete_click i st
     = (st\<lparr>deletingId := Some i, bookmarks := filter (\<lambda>b. b_id b \<noteq> i) (bookmarks st)\<rparr>,
        Delete_eq_id i)
   \<and> (remote_delete (Delete_eq_id i) = None \<longrightarrow>
        handleDelete remote_delete remote_select i st
          = (st\<lparr>deletingId := None, bookmarks := filter (\<lambda>b. b_id b \<noteq> i) (bookmarks st)\<rparr>,
             [Delete_eq_id i]))
   \<and> (remote_delete (Delete_eq_id i) = Some message \<longrightarrow>
      remote_select (Select_order ''created_at'' False) = Some fetched \<longrightarrow>
        handleDelete remote_delete remote_select i st
          = (st\<lparr>deletingId := None, bookmarks := fetched, error := Some message\<rparr>,
             [Delete_eq_id i, Select_order ''created_at'' False]))"
  by (simp add: handleDelete_def handleDelete_click_def handleDelete_answer_def
        handleDelete_refetched_def)

theorem handleDelete_optimistic_then_resync_witness:
  "handleDelete (\<lambda>q. None) (\<lambda>q. None) ''a1''
      (BookmarkClient [\<lparr>b_id = ''a1'', b_user_id = ''u1'', b_title = ''Docs'',
           b_url = ''https://example.com/docs'', b_created_at = ''T1''\<rparr>,
         \<lparr>b_id = ''a0'', b_user_id = ''u1'', b_title = ''Old'',
           b_url = ''https://example.com'', b_created_at = ''T0''\<rparr>])
    = (BookmarkClient [\<lparr>b_id = ''a0'', b_user_id = ''u1'', b_title = ''Old'',
           b_url = ''https://example.com'', b_created_at = ''T0''\<rparr>],
       [Delete_eq_id ''a1''])
   \<and>
   handleDelete (\<lambda>q. Some ''permission denied'')
      (\<lambda>q. Some [\<lparr>b_id = ''a1'', b_user_id = ''u1'', b_title = ''Docs'',
           b_url = ''https://example.com/docs'', b_created_at = ''T1''\<rparr>,
         \<lparr>b_id = ''a0'', b_user_id = ''u1'', b_title = ''Old'',
           b_url = ''https://example.com'', b_created_at = ''T0''\<rparr>])
      ''a1''
      (BookmarkClient [\<lparr>b_id = ''a1'', b_user_id = ''u1'', b_title = ''Docs'',
           b_url = ''https://example.com/docs'', b_created_at = ''T1''\<rparr>,
         \<lparr>b_id = ''a0'', b_user_id = ''u1'', b_title = ''Old'',
           b_url = ''https://example.com'', b_created_at = ''T0''\<rparr>])
    = ((BookmarkClient [\<lparr>b_id = ''a1'', b_user_id = ''u1'', b_title = ''Docs'',
           b_url = ''https://example.com/docs'', b_created_at = ''T1''\<rparr>,
         \<lparr>b_id = ''a0'', b_user_id = ''u1'', b_title = ''Old'',
           b_url = ''https://example.com'', b_created_at = ''T0''\<rparr>])
         \<lparr>error := Some ''permission denied''\<rparr>,
       [Delete_eq_id ''a1'', Select_order ''created_at'' False])"
  using
    handleDelete_optimistic_then_resync
      [where i = "''a1''"
         and st = "BookmarkClient [\<lparr>b_id = ''a1'', b_user_id = ''u1'', b_title = ''Docs'',
             b_url = ''https://example.com/docs'', b_created_at = ''T1''\<rparr>,
           \<lparr>b_id = ''a0'', b_user_id = ''u1'', b_title = ''Old'',
             b_url = ''https://example.com'', b_created_at = ''T0''\<rparr>]"
         and remote_delete = "\<lambda>q. None" and remote_select = "\<lambda>q. None"]
    handleDelete_optimistic_then_resync
      [where i = "''a1''"
         and st = "BookmarkClient [\<lparr>b_id = ''a1'', b_user_id = ''u1'', b_title = ''Docs'',
             b_url = ''https://example.com/docs'', b_created_at = ''T1''\<rparr>,
           \<lparr>b_id = ''a0'', b_user_id = ''u1'', b_title = ''Old'',
             b_url = ''https://example.com'', b_created_at = ''T0''\<rparr>]"
         and remote_delete = "\<lambda>q. Some ''permission denied''"
         and message = "''permission denied''"
         and remote_select = "\<lambda>q. Some [\<lparr>b_id = ''a1'', b_user_id = ''u1'',
             b_title = ''Docs'', b_url = ''https://example.com/docs'', b_created_at = ''T1''\<rparr>,
           \<lparr>b_id = ''a0'', b_user_id = ''u1'', b_title = ''Old'',
             b_url = ''https://example.com'', b_created_at = ''T0''\<rparr>]"
         and fetched = "[\<lparr>b_id = ''a1'', b_user_id = ''u1'', b_title = ''Docs'',
             b_url = ''https://example.com/docs'', b_created_at = ''T1''\<rparr>,
           \<lparr>b_id = ''a0'', b_user_id = ''u1'', b_title = ''Old'',
             b_url = ''https://example.com'', b_created_at = ''T0''\<rparr>]"]
  by (simp add: BookmarkClient_def)

text \<open>
  C10. When the delete fails and the second fetch returns no data, the handler ends with
  the list as the optimistic removal left it: the entry is not put back. It has sent the
  delete and the one fetch, nothing more, and has set the message of the delete error.
\<close>

theorem handleDelete_resync_without_data:
  assumes "remote_delete (Delete_eq_id i) = Some message"
      and "remote_select (Select_order ''created_at'' False) = None"
  shows "handleDelete remote_delete remote_select i st
          = (st\<lparr>deletingId := None, bookmarks := filter (\<lambda>b. b_id b \<noteq> i) (bookmarks st),
                 error := Some message\<rparr>,
             [Delete_eq_id i, Select_order ''created_at'' False])"
  using assms
  by (simp add: handleDelete_def handleDelete_click_def handleDelete_answer_def
        handleDelete_refetched_def)

theorem handleDelete_resync_without_data_witness:
  "handleDelete (\<lambda>q. Some ''permission denied'') (\<lambda>q. None) ''a1''
      (BookmarkClient [\<lparr>b_id = ''a1'', b_user_id = ''u1'', b_title = ''Docs'',
           b_url = ''https://example.com/docs'', b_created_at = ''T1''\<rparr>,
         \<lparr>b_id = ''a0'', b_user_id = ''u1'', b_title = ''Old'',
           b_url = ''https://example.com'', b_created_at = ''T0''\<rparr>])
    = ((BookmarkClient [\<lparr>b_id = ''a0'', b_user_id = ''u1'', b_title = ''Old'',
           b_url = ''https://example.com'', b_created_at = ''T0''\<rparr>])
         \<lparr>error := Some ''permission denied''\<rparr>,
       [Delete_eq_id ''a1'', Select_order ''created_at'' False])"
  using handleDelete_resync_without_data
    [of "\<lambda>q. Some ''permission denied''" "''a1''" "''permission denied''" "\<lambda>q. None"
        "BookmarkClient [\<lparr>b_id = ''a1'', b_user_id = ''u1'', b_title = ''Docs'',
           b_url = ''https://example.com/docs'', b_created_at = ''T1''\<rparr>,
         \<lparr>b_id = ''a0'', b_user_id = ''u1'', b_title = ''Old'',
           b_url = ''https://example.com'', b_created_at = ''T0''\<rparr>]"]
  by (simp add: BookmarkClient_def)

text \<open>
  C8. When no entry of the list has the id, the optimistic removal of the delete handler
  and the DELETE callback of the feed both leave the list as it is. Both are total: there
  is no error to return.
\<close>

theorem delete_absent_id_noop:
  assumes "i \<notin> set (map b_id (bookmarks st))" and "b_id old = i"
  shows "bookmarks (fst (handleDelete_click i st)) = bookmarks st
       \<and> callback \<lparr>kind = DELETE, row = old\<rparr> st = st
       \<and> subscription delivers user \<lparr>kind = DELETE, row = old\<rparr> st = st"
  using assms filter_absent_id [of i "bookmarks st"]
  by (simp add: handleDelete_click_def callback_def subscription_def on_DELETE_def)

theorem delete_absent_id_noop_witness:
  "bookmarks (fst (handleDelete_click ''a1''
      (BookmarkClient [\<lparr>b_id = ''a0'', b_user_id = ''u1'', b_title = ''Old'',
           b_url = ''https://example.com'', b_created_at = ''T0''\<rparr>])))
    = [\<lparr>b_id = ''a0'', b_user_id = ''u1'', b_title = ''Old'',
           b_url = ''https://example.com'', b_created_at = ''T0''\<rparr>]
   \<and> callback \<lparr>kind = DELETE, row = \<lparr>b_id = ''a1'', b_user_id = ''u1'', b_title = ''Docs'',
           b_url = ''https://example.com/docs'', b_created_at = ''T1''\<rparr>\<rparr>
        (BookmarkClient [\<lparr>b_id = ''a0'', b_user_id = ''u1'', b_title = ''Old'',
           b_url = ''https://example.com'', b_created_at = ''T0''\<rparr>])
    = BookmarkClient [\<lparr>b_id = ''a0'', b_user_id = ''u1'', b_title = ''Old'',
           b_url = ''https://example.com'', b_created_at = ''T0''\<rparr>]"
  using delete_absent_id_noop
    [where i = "''a1''"
       and st = "BookmarkClient [\<lparr>b_id = ''a0'', b_user_id = ''u1'', b_title = ''Old'',
           b_url = ''https://example.com'', b_created_at = ''T0''\<rparr>]"
       and old = "\<lparr>b_id = ''a1'', b_user_id = ''u1'', b_title = ''Docs'',
           b_url = ''https://example.com/docs'', b_created_at = ''T1''\<rparr>"
       and user = "\<lparr>u_id = ''u1'', u_email = ''a@b.c'', u_name = ''A''\<rparr>"
       and delivers = "\<lambda>b c. True"]
  by (simp add: BookmarkClient_def)

section \<open>Order of the list\<close>

text \<open>
  C7. From a list that is newest first, every run of the two handlers in which each
  created row is at least as new as the entries present when it is inserted, and each
  second fetch returns a list that is newest first, ends in a list that is newest first.
\<close>

theorem handlers_keep_newest_first:
  assumes "newest_first ts (bookmarks st)" and "handler_run ts new_URL user st evs"
  shows "newest_first ts (bookmarks (run new_URL user st evs))"
  using assms unfolding run_def
proof (induction evs arbitrary: st)
  case Nil
  then show ?case by simp
next
  case (Cons ev evs)
  from Cons.prems have "newest_first ts (bookmarks (step new_URL user st ev))"
    by (simp add: step_newest_first)
  moreover from Cons.prems have "handler_run ts new_URL user (step new_URL user st ev) evs"
    by simp
  ultimately show ?case using Cons.IH by simp
qed

theorem handlers_keep_newest_first_witness:
  "newest_first (\<lambda>s. if s = ''T2'' then 2 else if s = ''T1'' then 1 else 0)
     (bookmarks (run (\<lambda>s. if s = ''https://example.com/docs'' then Some () else None)
       \<lparr>u_id = ''u1'', u_email = ''a@b.c'', u_name = ''A''\<rparr>
       ((DashboardPage (Some [\<lparr>b_id = ''a1'', b_user_id = ''u1'', b_title = ''Old'',
           b_url = ''https://example.com'', b_created_at = ''T1''\<rparr>]))
          \<lparr>title := ''Docs'', url := ''https://example.com/docs''\<rparr>)
       [Submit,
        Insert_answered \<lparr>ins_data = Some \<lparr>b_id = ''a2'', b_user_id = ''u1'', b_title = ''Docs'',
           b_url = ''https://example.com/docs'', b_created_at = ''T2''\<rparr>, ins_error = None\<rparr>,
        Delete_clicked ''a1'',
        Delete_answered (Some ''permission denied''),
        Select_answered (Some [\<lparr>b_id = ''a2'', b_user_id = ''u1'', b_title = ''Docs'',
           b_url = ''https://example.com/docs'', b_created_at = ''T2''\<rparr>,
           \<lparr>b_id = ''a1'', b_user_id = ''u1'', b_title = ''Old'',
           b_url = ''https://example.com'', b_created_at = ''T1''\<rparr>])]))"
  by (rule handlers_keep_newest_first)
     (simp_all add: newest_first_def newest_of_def DashboardPage_def BookmarkClient_def
        handleAddBookmark_submit_def handleAddBookmark_answer_def handleDelete_click_def
        handleDelete_answer_def handleDelete_refetched_def trim_def is_white_space_def)

end
